theory Spec2Isabelle
  imports Main "HOL-Library.Option_ord"
begin

section \<open>Python values\<close>

text \<open>
  A Python \<open>str\<close> is a sequence of Unicode code points and \<open>len\<close> counts code points,
  so a string is a list of code points. \<open>py\<close> turns a literal of the source into one.
\<close>

type_synonym pystr = "nat list"

definition py :: "string \<Rightarrow> pystr" where
  "py s = map of_char s"

text \<open>
  \<open>str.isspace\<close> of one code point, the characters \<open>str.strip()\<close> removes: tab to
  carriage return, the four separators 0x1C..0x1F, space, NEL, no-break space and the
  Unicode space separators.
\<close>

definition isspace :: "nat \<Rightarrow> bool" where
  "isspace c \<longleftrightarrow>
     (9 \<le> c \<and> c \<le> 13) \<or> (28 \<le> c \<and> c \<le> 32) \<or> c = 133 \<or> c = 160 \<or> c = 5760 \<or>
     (8192 \<le> c \<and> c \<le> 8202) \<or> c = 8232 \<or> c = 8233 \<or> c = 8239 \<or> c = 8287 \<or> c = 12288"

definition strip :: "pystr \<Rightarrow> pystr" where
  "strip s = rev (dropWhile isspace (rev (dropWhile isspace s)))"

fun join :: "pystr \<Rightarrow> pystr list \<Rightarrow> pystr" where
  "join sep [] = []"
| "join sep [x] = x"
| "join sep (x # y # ys) = x @ sep @ join sep (y # ys)"

text \<open>\<open>sub in s\<close> on two strings: \<open>sub\<close> occurs in \<open>s\<close> as a contiguous block.\<close>

fun str_contains :: "pystr \<Rightarrow> pystr \<Rightarrow> bool" where
  "str_contains [] sub = (sub = [])"
| "str_contains (c # cs) sub = (take (length sub) (c # cs) = sub \<or> str_contains cs sub)"

text \<open>
  What \<open>request.get_json()\<close> hands to a view: any JSON value, \<open>JNull\<close> being Python's
  \<open>None\<close>. A float is a mantissa and a binary exponent; an object is the parsed \<open>dict\<close>,
  read by key with \<open>map_of\<close>.
\<close>

datatype json =
    JNull
  | JBool bool
  | JInt int
  | JFloat int int
  | JStr pystr
  | JList "json list"
  | JObj "(pystr \<times> json) list"

datatype py_exc = AttributeError | TypeError | KeyError | OverflowError

text \<open>Python's truth value of a JSON value (\<open>not data\<close> is its negation).\<close>

fun truthy :: "json \<Rightarrow> bool" where
  "truthy JNull = False"
| "truthy (JBool b) = b"
| "truthy (JInt n) = (n \<noteq> 0)"
| "truthy (JFloat m e) = (m \<noteq> 0)"
| "truthy (JStr s) = (s \<noteq> [])"
| "truthy (JList xs) = (xs \<noteq> [])"
| "truthy (JObj kv) = (kv \<noteq> [])"

text \<open>\<open>data.get(key, default)\<close>: only a \<open>dict\<close> has the method.\<close>

fun dict_get :: "json \<Rightarrow> pystr \<Rightarrow> json \<Rightarrow> py_exc + json" where
  "dict_get (JObj kv) key dflt = Inr (case map_of kv key of None \<Rightarrow> dflt | Some v \<Rightarrow> v)"
| "dict_get _ key dflt = Inl AttributeError"

text \<open>\<open>value.strip()\<close>: only a \<open>str\<close> has the method.\<close>

fun py_strip :: "json \<Rightarrow> py_exc + pystr" where
  "py_strip (JStr s) = Inr (strip s)"
| "py_strip _ = Inl AttributeError"

text \<open>\<open>key in data\<close> for a string key: key of a dict, element of a list, substring of a
  string; numbers and booleans are not iterable.\<close>

fun py_contains :: "json \<Rightarrow> pystr \<Rightarrow> py_exc + bool" where
  "py_contains (JObj kv) key = Inr (map_of kv key \<noteq> None)"
| "py_contains (JList xs) key = Inr (JStr key \<in> set xs)"
| "py_contains (JStr s) key = Inr (str_contains s key)"
| "py_contains _ key = Inl TypeError"

text \<open>\<open>data[key]\<close> for a string key: a list or a string wants an integer index.\<close>

fun py_getitem :: "json \<Rightarrow> pystr \<Rightarrow> py_exc + json" where
  "py_getitem (JObj kv) key = (case map_of kv key of None \<Rightarrow> Inl KeyError | Some v \<Rightarrow> Inr v)"
| "py_getitem _ key = Inl TypeError"

section \<open>models.py: the Ticket entity\<close>

text \<open>
  One row of the table. \<open>assigned_admin\<close>, \<open>created_at\<close> and \<open>updated_at\<close> are nullable
  columns; timestamps are readings of the clock.
\<close>

record ticket =
  ticket_id :: int
  title :: pystr
  description :: pystr
  priority :: pystr
  status :: pystr
  reporter_name :: pystr
  assigned_admin :: "pystr option"
  created_at :: "nat option"
  updated_at :: "nat option"

definition valid_statuses :: "pystr list" where
  "valid_statuses = [py ''open'', py ''in_progress'', py ''closed'']"

definition valid_priorities :: "pystr list" where
  "valid_priorities = [py ''low'', py ''medium'', py ''high'']"

text \<open>
  The table is the list of its rows in insertion order. \<open>Ticket.query.get\<close> reads a row by
  primary key; a new row gets the largest id in the table plus one (1 in an empty table),
  which is how SQLite fills an integer primary key.
\<close>

type_synonym store = "ticket list"

definition query_get :: "store \<Rightarrow> int \<Rightarrow> ticket option" where
  "query_get tickets tid = find (\<lambda>t. ticket_id t = tid) tickets"

definition next_id :: "store \<Rightarrow> int" where
  "next_id tickets = fold max (map ticket_id tickets) 0 + 1"

definition update_row :: "store \<Rightarrow> int \<Rightarrow> ticket \<Rightarrow> store" where
  "update_row tickets tid t' = map (\<lambda>t. if ticket_id t = tid then t' else t) tickets"

definition delete_row :: "store \<Rightarrow> int \<Rightarrow> store" where
  "delete_row tickets tid = filter (\<lambda>t. ticket_id t \<noteq> tid) tickets"

section \<open>app.py: identity\<close>

record session =
  user_name :: "pystr option"
  user_role :: "pystr option"
  flashes :: "(pystr \<times> pystr) list"

record identity =
  name :: pystr
  role :: pystr

definition REPORTERS :: "pystr list" where
  "REPORTERS = [py ''Alice'', py ''Bob'']"

definition ADMINS :: "pystr list" where
  "ADMINS = [py ''Admin1'', py ''Admin2'']"

definition current_user :: "session \<Rightarrow> identity" where
  "current_user s =
     \<lparr>name = (case user_name s of None \<Rightarrow> py ''Alice'' | Some n \<Rightarrow> n),
      role = (case user_role s of None \<Rightarrow> py ''Reporter'' | Some r \<Rightarrow> r)\<rparr>"

definition is_admin :: "session \<Rightarrow> bool" where
  "is_admin s \<longleftrightarrow> role (current_user s) = py ''Admin''"

definition is_reporter :: "session \<Rightarrow> bool" where
  "is_reporter s \<longleftrightarrow> role (current_user s) = py ''Reporter''"

definition flash :: "pystr \<Rightarrow> pystr \<Rightarrow> session \<Rightarrow> session" where
  "flash message category s = s\<lparr>flashes := flashes s @ [(message, category)]\<rparr>"

text \<open>
  \<open>set_role\<close>: the two form values are \<open>None\<close> when the field is absent. Every path ends in
  the same redirect to the index page, so the result is the session.
\<close>

definition set_role :: "session \<Rightarrow> pystr option \<Rightarrow> pystr option \<Rightarrow> session" where
  "set_role s form_name form_role =
     (if form_role = Some (py ''Reporter'') \<and> form_name \<in> Some ` set REPORTERS
      then s\<lparr>user_name := form_name, user_role := Some (py ''Reporter'')\<rparr>
      else if form_role = Some (py ''Admin'') \<and> form_name \<in> Some ` set ADMINS
      then s\<lparr>user_name := form_name, user_role := Some (py ''Admin'')\<rparr>
      else if form_role = Some (py ''Admin'')
      then s\<lparr>user_name := Some (py ''Admin1''), user_role := Some (py ''Admin'')\<rparr>
      else if form_role = Some (py ''Reporter'')
      then s\<lparr>user_name := Some (py ''Alice''), user_role := Some (py ''Reporter'')\<rparr>
      else flash (py ''Invalid user or role'') (py ''error'') s)"

section \<open>app.py: validation\<close>

definition title_required :: pystr where
  "title_required = py ''Title is required''"

definition title_length :: pystr where
  "title_length = py ''Title must be between 3 and 120 characters''"

definition description_required :: pystr where
  "description_required = py ''Description is required''"

definition description_length :: pystr where
  "description_length = py ''Description must be between 1 and 1000 characters''"

definition priority_invalid :: pystr where
  "priority_invalid = py ''Priority must be one of: '' @ join (py '', '') valid_priorities"

definition title_errors :: "pystr \<Rightarrow> pystr list" where
  "title_errors t =
     (if t = [] then [title_required]
      else if length t < 3 \<or> length t > 120 then [title_length] else [])"

definition description_errors :: "pystr \<Rightarrow> pystr list" where
  "description_errors d =
     (if d = [] then [description_required]
      else if length d < 1 \<or> length d > 1000 then [description_length] else [])"

definition priority_errors :: "json \<Rightarrow> pystr list" where
  "priority_errors p = (if p \<notin> set (map JStr valid_priorities) then [priority_invalid] else [])"

text \<open>
  \<open>validate_ticket_data\<close>, statement by statement: an exception of \<open>data.get\<close> or of
  \<open>.strip()\<close> leaves the function at once, with the messages collected so far lost.
\<close>

definition validate_ticket_data :: "json \<Rightarrow> py_exc + pystr list" where
  "validate_ticket_data data =
     (case dict_get data (py ''title'') (JStr []) of
        Inl e \<Rightarrow> Inl e
      | Inr tv \<Rightarrow>
     (case py_strip tv of
        Inl e \<Rightarrow> Inl e
      | Inr t \<Rightarrow>
     (case dict_get data (py ''description'') (JStr []) of
        Inl e \<Rightarrow> Inl e
      | Inr dv \<Rightarrow>
     (case py_strip dv of
        Inl e \<Rightarrow> Inl e
      | Inr d \<Rightarrow>
     (case dict_get data (py ''priority'') (JStr []) of
        Inl e \<Rightarrow> Inl e
      | Inr p \<Rightarrow> Inr (title_errors t @ description_errors d @ priority_errors p))))))"

section \<open>app.py: the JSON API\<close>

text \<open>
  A response is the body given to \<open>jsonify\<close> and the HTTP status. \<open>to_dict\<close> copies the
  row field by field, so a ticket's JSON is the row. The three error handlers are the ones
  Flask runs for a path under \<open>/api/\<close>, where every view below is routed: \<open>bad_request\<close>
  for a 400 raised in a view, \<open>not_found\<close> for the 404 of \<open>get_or_404\<close>, \<open>internal_error\<close>
  for any other exception that leaves a view. An HTTP error with no handler of its own is
  answered by the framework's page for it.
\<close>

datatype body =
    Errors "pystr list"
  | Message pystr
  | TicketJson ticket
  | TicketsJson "ticket list"
  | ErrorPage

type_synonym response = "body \<times> nat"

definition bad_request :: response where
  "bad_request = (Errors [py ''Bad request''], 400)"

definition not_found :: response where
  "not_found = (Message (py ''Resource not found''), 404)"

definition internal_error :: response where
  "internal_error = (Errors [py ''Internal server error''], 500)"

text \<open>
  \<open>request.get_json()\<close>, called without \<open>silent=True\<close>, either returns the parsed body or
  raises: \<open>BadRequest\<close> when the body is declared as JSON and does not parse (an empty body
  does not), \<open>UnsupportedMediaType\<close> when the request is not declared as JSON and the
  framework refuses it (an older framework returns \<open>None\<close> there instead). What it does is
  decided by the request, so the outcome is what a view is given.
\<close>

datatype json_abort = BadRequest | UnsupportedMediaType

datatype got_json = Returned json | Raised json_abort

fun abort_response :: "json_abort \<Rightarrow> response" where
  "abort_response BadRequest = bad_request"
| "abort_response UnsupportedMediaType = (ErrorPage, 415)"

text \<open>
  \<open>Ticket.query.get_or_404\<close>, which all three views that take an id call outside their
  \<open>try\<close>: the row, or the answer Flask gives in its place. The id is bound to a 64-bit
  SQLite integer for the lookup, and the bind raises \<open>OverflowError\<close> for an id outside that
  range; an id in range with no row aborts with 404. A SQLite table holds no row whose id is
  out of range, so a row that is found is returned.
\<close>

definition sqlite_integer :: "int \<Rightarrow> bool" where
  "sqlite_integer i \<longleftrightarrow> - (2 ^ 63) \<le> i \<and> i < 2 ^ 63"

definition get_or_404 :: "store \<Rightarrow> int \<Rightarrow> response + ticket" where
  "get_or_404 tickets tid =
     (case query_get tickets tid of
        Some t \<Rightarrow> Inr t
      | None \<Rightarrow> if sqlite_integer tid then Inl not_found else Inl internal_error)"

text \<open>
  The query \<open>index\<close> and \<open>get_tickets\<close> both build: an empty filter is no filter, the
  newest ticket comes first, tickets created at the same instant come in the order of
  their ids, and rows with no \<open>created_at\<close> sort last.
\<close>

definition ticket_query :: "store \<Rightarrow> pystr \<Rightarrow> pystr \<Rightarrow> ticket list" where
  "ticket_query tickets status_filter admin_filter =
     (let q1 = (if status_filter \<noteq> [] then filter (\<lambda>t. status t = status_filter) tickets
                else tickets);
          q2 = (if admin_filter \<noteq> [] then filter (\<lambda>t. assigned_admin t = Some admin_filter) q1
                else q1)
      in rev (sort_key created_at (rev (sort_key ticket_id q2))))"

definition get_tickets :: "store \<Rightarrow> pystr \<Rightarrow> pystr \<Rightarrow> response" where
  "get_tickets tickets status_filter admin_filter =
     (TicketsJson (ticket_query tickets status_filter admin_filter), 200)"

text \<open>
  \<open>create_ticket\<close>. \<open>got\<close> is the outcome of \<open>request.get_json()\<close>, which the view
  calls after the role test; \<open>now_c\<close> and \<open>now_u\<close> are the two readings of \<open>datetime.utcnow\<close> the
  column defaults take at the insert; \<open>commit_ok\<close> says whether the database accepts the
  commit. Inside the \<open>try\<close>, a failed subscript or commit ends in the \<open>except\<close> branch;
  once validation has passed the three fields are strings, so only the commit can fail.
\<close>

definition create_ticket ::
    "session \<Rightarrow> store \<Rightarrow> got_json \<Rightarrow> nat \<Rightarrow> nat \<Rightarrow> bool \<Rightarrow> response \<times> store" where
  "create_ticket s tickets got now_c now_u commit_ok =
     (if \<not> is_reporter s then ((Errors [py ''Only reporters can create tickets''], 403), tickets)
      else (case got of
          Raised a \<Rightarrow> (abort_response a, tickets)
        | Returned data \<Rightarrow>
      if \<not> truthy data then ((Errors [py ''No data provided''], 400), tickets)
      else (case validate_ticket_data data of
          Inl e \<Rightarrow> (internal_error, tickets)
        | Inr errors \<Rightarrow>
            if errors \<noteq> [] then ((Errors errors, 400), tickets)
            else (case (py_getitem data (py ''title''), py_getitem data (py ''description''),
                        py_getitem data (py ''priority'')) of
                (Inr (JStr t), Inr (JStr d), Inr (JStr p)) \<Rightarrow>
                  if commit_ok
                  then (let new = \<lparr>ticket_id = next_id tickets, title = t, description = d,
                                    priority = p, status = py ''open'',
                                    reporter_name = name (current_user s),
                                    assigned_admin = None,
                                    created_at = Some now_c, updated_at = Some now_u\<rparr>
                        in ((TicketJson new, 201), tickets @ [new]))
                  else ((Errors [py ''Failed to create ticket''], 500), tickets)
              | _ \<Rightarrow> ((Errors [py ''Failed to create ticket''], 500), tickets)))))"

text \<open>\<open>if ticket.assigned_admin\<close>: \<open>None\<close> and the empty string are false.\<close>

definition assigned :: "ticket \<Rightarrow> bool" where
  "assigned t = (case assigned_admin t of None \<Rightarrow> False | Some a \<Rightarrow> a \<noteq> [])"

definition assign_self :: "session \<Rightarrow> store \<Rightarrow> int \<Rightarrow> nat \<Rightarrow> bool \<Rightarrow> response \<times> store" where
  "assign_self s tickets tid now commit_ok =
     (if \<not> is_admin s then ((Errors [py ''Only admins can assign tickets''], 403), tickets)
      else (case get_or_404 tickets tid of
          Inl r \<Rightarrow> (r, tickets)
        | Inr t \<Rightarrow>
            if assigned t then ((Errors [py ''Ticket is already assigned''], 400), tickets)
            else if commit_ok
            then (let t' = t\<lparr>assigned_admin := Some (name (current_user s)),
                             updated_at := Some now\<rparr>
                  in ((TicketJson t', 200), update_row tickets tid t'))
            else ((Errors [py ''Failed to assign ticket''], 500), tickets)))"

definition status_invalid :: pystr where
  "status_invalid = py ''Status must be one of: '' @ join (py '', '') valid_statuses"

definition update_status ::
    "session \<Rightarrow> store \<Rightarrow> int \<Rightarrow> got_json \<Rightarrow> nat \<Rightarrow> bool \<Rightarrow> response \<times> store" where
  "update_status s tickets tid got now commit_ok =
     (if \<not> is_admin s then ((Errors [py ''Only admins can update ticket status''], 403), tickets)
      else (case get_or_404 tickets tid of
          Inl r \<Rightarrow> (r, tickets)
        | Inr t \<Rightarrow>
     (case got of
          Raised a \<Rightarrow> (abort_response a, tickets)
        | Returned data \<Rightarrow>
            if \<not> truthy data then ((Errors [py ''Status is required''], 400), tickets)
            else (case py_contains data (py ''status'') of
                Inl e \<Rightarrow> (internal_error, tickets)
              | Inr False \<Rightarrow> ((Errors [py ''Status is required''], 400), tickets)
              | Inr True \<Rightarrow>
                 (case py_getitem data (py ''status'') of
                    Inl e \<Rightarrow> (internal_error, tickets)
                  | Inr (JStr new_status) \<Rightarrow>
                      if new_status \<notin> set valid_statuses
                      then ((Errors [status_invalid], 400), tickets)
                      else if commit_ok
                      then (let t' = t\<lparr>status := new_status, updated_at := Some now\<rparr>
                            in ((TicketJson t', 200), update_row tickets tid t'))
                      else ((Errors [py ''Failed to update ticket status''], 500), tickets)
                  | Inr _ \<Rightarrow> ((Errors [status_invalid], 400), tickets))))))"

definition delete_ticket :: "store \<Rightarrow> int \<Rightarrow> bool \<Rightarrow> response \<times> store" where
  "delete_ticket tickets tid commit_ok =
     (case get_or_404 tickets tid of
        Inl r \<Rightarrow> (r, tickets)
      | Inr t \<Rightarrow>
          if commit_ok
          then ((Message (py ''Ticket deleted successfully''), 200), delete_row tickets tid)
          else ((Errors [py ''Failed to delete ticket''], 500), tickets))"

section \<open>The running application\<close>

text \<open>
  The state is the session of the browser together with the table; a request is one call
  of a route with everything the view reads from outside: form values, URL parameters, the
  outcome of reading the body, the clock and the outcome of the commit. One session that switches identity
  with \<open>set_role\<close> stands for all clients, since requests are served one at a time.
\<close>

record state =
  sess :: session
  db :: store

datatype request =
    SetRole "pystr option" "pystr option"
  | GetTickets pystr pystr
  | CreateTicket got_json nat nat bool
  | AssignSelf int nat bool
  | UpdateStatus int got_json nat bool
  | DeleteTicket int bool

datatype reply = Redirect | Api response

fun step :: "state \<Rightarrow> request \<Rightarrow> reply \<times> state" where
  "step st (SetRole form_name form_role) =
     (Redirect, st\<lparr>sess := set_role (sess st) form_name form_role\<rparr>)"
| "step st (GetTickets status_filter admin_filter) =
     (Api (get_tickets (db st) status_filter admin_filter), st)"
| "step st (CreateTicket got now_c now_u commit_ok) =
     (case create_ticket (sess st) (db st) got now_c now_u commit_ok of
        (r, tickets) \<Rightarrow> (Api r, st\<lparr>db := tickets\<rparr>))"
| "step st (AssignSelf tid now commit_ok) =
     (case assign_self (sess st) (db st) tid now commit_ok of
        (r, tickets) \<Rightarrow> (Api r, st\<lparr>db := tickets\<rparr>))"
| "step st (UpdateStatus tid got now commit_ok) =
     (case update_status (sess st) (db st) tid got now commit_ok of
        (r, tickets) \<Rightarrow> (Api r, st\<lparr>db := tickets\<rparr>))"
| "step st (DeleteTicket tid commit_ok) =
     (case delete_ticket (db st) tid commit_ok of
        (r, tickets) \<Rightarrow> (Api r, st\<lparr>db := tickets\<rparr>))"

text \<open>
  The application starts with a fresh session on a table that is empty or seeded: every
  \<open>assigned_admin\<close> in it is null or one of \<open>ADMINS\<close>, as in \<open>seed.py\<close>.
\<close>

definition new_session :: session where
  "new_session = \<lparr>user_name = None, user_role = None, flashes = []\<rparr>"

definition admin_or_null :: "ticket \<Rightarrow> bool" where
  "admin_or_null t \<longleftrightarrow> assigned_admin t = None \<or> assigned_admin t \<in> Some ` set ADMINS"

definition seeded :: "store \<Rightarrow> bool" where
  "seeded tickets \<longleftrightarrow> list_all admin_or_null tickets"

inductive reachable :: "state \<Rightarrow> bool" where
  start: "seeded tickets \<Longrightarrow> reachable \<lparr>sess = new_session, db = tickets\<rparr>"
| after: "reachable st \<Longrightarrow> reachable (snd (step st req))"

text \<open>
  What holds of every reachable state: the table keeps that form, and a session in the
  admin role carries one of the admin names.
\<close>

definition consistent :: "state \<Rightarrow> bool" where
  "consistent st \<longleftrightarrow>
     list_all admin_or_null (db st) \<and>
     (is_admin (sess st) \<longrightarrow> name (current_user (sess st)) \<in> set ADMINS)"

section \<open>Reading a request body\<close>

text \<open>
  The text \<open>data.get(key, '')\<close> yields when the field is a string or absent, the
  \<open>status\<close> field of a body that is an object, and whether a body is an object.
\<close>

definition text_field :: "(pystr \<times> json) list \<Rightarrow> pystr \<Rightarrow> pystr option" where
  "text_field kv key =
     (case map_of kv key of None \<Rightarrow> Some [] | Some (JStr s) \<Rightarrow> Some s | Some _ \<Rightarrow> None)"



section \<open>Sample data\<close>

text \<open>
  The session after a switch to the first admin; a request body and the ticket
  \<open>create_ticket\<close> files for it; the same ticket once Admin1 has taken it; the states
  with the admin in front of either table; a second ticket, and the state of a reporter in
  front of both.
\<close>

definition admin1 :: session where
  "admin1 = set_role new_session (Some (py ''Admin1'')) (Some (py ''Admin''))"

definition ticket1_body :: json where
  "ticket1_body = JObj [(py ''title'', JStr (py ''Printer jam'')),
                        (py ''description'', JStr (py ''Tray 2'')),
                        (py ''priority'', JStr (py ''low''))]"

definition ticket1 :: ticket where
  "ticket1 = \<lparr>ticket_id = 1, title = py ''Printer jam'', description = py ''Tray 2'',
               priority = py ''low'', status = py ''open'', reporter_name = py ''Alice'',
               assigned_admin = None, created_at = Some 1, updated_at = Some 1\<rparr>"

definition taken1 :: ticket where
  "taken1 = ticket1\<lparr>assigned_admin := Some (py ''Admin1''), updated_at := Some 5\<rparr>"

definition desk :: state where
  "desk = \<lparr>sess = admin1, db = [ticket1]\<rparr>"

definition desk_taken :: state where
  "desk_taken = \<lparr>sess = admin1, db = [taken1]\<rparr>"

definition ticket2 :: ticket where
  "ticket2 = \<lparr>ticket_id = 2, title = py ''Login fails'', description = py ''Error 500'',
               priority = py ''high'', status = py ''open'', reporter_name = py ''Bob'',
               assigned_admin = None, created_at = Some 2, updated_at = Some 2\<rparr>"

definition front_office :: state where
  "front_office = \<lparr>sess = new_session, db = [ticket1, ticket2]\<rparr>"

text \<open>A body whose title and description end in blanks, and the row stored for it.\<close>

definition padded_ticket :: json where
  "padded_ticket = JObj [(py ''title'', JStr (py ''abc'' @ replicate 118 32)),
                         (py ''description'', JStr (py ''d'' @ replicate 1000 32)),
                         (py ''priority'', JStr (py ''low''))]"

definition padded_row :: ticket where
  "padded_row = \<lparr>ticket_id = 1, title = py ''abc'' @ replicate 118 32,
                  description = py ''d'' @ replicate 1000 32, priority = py ''low'',
                  status = py ''open'', reporter_name = py ''Alice'', assigned_admin = None,
                  created_at = Some 7, updated_at = Some 8\<rparr>"

text \<open>Bodies at the edges of the length limits.\<close>

definition short_title_fields :: "(pystr \<times> json) list" where
  "short_title_fields = [(py ''title'', JStr (py '' ab '')), (py ''description'', JStr (py ''d'')),
                         (py ''priority'', JStr (py ''urgent''))]"

definition long_title_fields :: "(pystr \<times> json) list" where
  "long_title_fields = [(py ''title'', JStr (replicate 121 97)), (py ''priority'', JStr (py ''low''))]"

definition widest_fields :: "(pystr \<times> json) list" where
  "widest_fields = [(py ''title'', JStr (replicate 120 97)),
                    (py ''description'', JStr (replicate 1000 97)),
                    (py ''priority'', JStr (py ''high''))]"

section \<open>Strings and messages\<close>

lemma isspace_32: "isspace 32"
  by (simp add: isspace_def)

lemma isspace_97: "\<not> isspace 97"
  by (simp add: isspace_def)

lemma strip_Nil: "strip [] = []"
  by (simp add: strip_def)

lemma dropWhile_leading_spaces:
  "dropWhile isspace (replicate n 32 @ ys) = dropWhile isspace ys"
  by (induction n) (simp_all add: isspace_32)

lemma strip_trailing_spaces: "strip (s @ replicate n 32) = strip s"
proof (cases "\<forall>c\<in>set s. isspace c")
  case True
  then show ?thesis
    by (auto simp add: strip_def isspace_32 dest: set_dropWhileD)
next
  case False
  then obtain x where "x \<in> set s" "\<not> isspace x"
    by auto
  then have "dropWhile isspace (s @ replicate n 32) = dropWhile isspace s @ replicate n 32"
    by (rule dropWhile_append1)
  then show ?thesis
    by (simp add: strip_def dropWhile_leading_spaces)
qed

lemma strip_letters: "strip (replicate n 97) = replicate n 97"
  by (simp add: strip_def isspace_97)

lemma strip_abc: "strip (py ''abc'') = py ''abc''" "strip (py ''d'') = py ''d''"
  by (simp_all add: py_def strip_def isspace_def)

lemma messages_distinct:
  "title_required \<noteq> title_length" "title_required \<noteq> description_required"
  "title_required \<noteq> description_length" "title_required \<noteq> priority_invalid"
  "title_length \<noteq> description_required" "title_length \<noteq> description_length"
  "title_length \<noteq> priority_invalid" "description_required \<noteq> description_length"
  "description_required \<noteq> priority_invalid" "description_length \<noteq> priority_invalid"
  by (simp_all add: title_required_def title_length_def description_required_def
      description_length_def priority_invalid_def py_def)

section \<open>Identity\<close>

lemma is_reporter_new: "is_reporter new_session"
  by (simp add: is_reporter_def current_user_def new_session_def)

lemma not_admin_new: "\<not> is_admin new_session"
  by (simp add: is_admin_def current_user_def new_session_def py_def)

lemma admin1_eq:
  "admin1 = \<lparr>user_name = Some (py ''Admin1''), user_role = Some (py ''Admin''), flashes = []\<rparr>"
  by (simp add: admin1_def set_role_def new_session_def ADMINS_def py_def)

lemma admin1_role: "is_admin admin1" "\<not> is_reporter admin1"
  by (simp_all add: admin1_eq is_admin_def is_reporter_def current_user_def py_def)

lemma admin1_name: "name (current_user admin1) = py ''Admin1''"
  by (simp add: admin1_eq current_user_def)

lemma admins_named: "[] \<notin> set ADMINS"
  by (simp add: ADMINS_def py_def)

lemma set_role_admin_named:
  "(is_admin s \<longrightarrow> name (current_user s) \<in> set ADMINS) \<Longrightarrow>
   is_admin (set_role s form_name form_role) \<Longrightarrow>
   name (current_user (set_role s form_name form_role)) \<in> set ADMINS"
  by (auto simp add: set_role_def is_admin_def current_user_def flash_def ADMINS_def py_def
      split: if_splits)



section \<open>Validation\<close>

text \<open>
  C3, as the code has it. For an input that is an object whose title and description are
  strings or absent (an absent field reads as the empty string), validation returns a list
  of messages in which a title message stands exactly when the trimmed title is shorter
  than 3 or longer than 120 (so for lengths 0, 2 and 121, not for 3 and 120), a
  description message exactly when the trimmed description is shorter than 1 or longer
  than 1000 (so for 0 and 1001, not for 1 and 1000), and the priority message exactly when
  the priority is absent or not one of low, medium, high.
\<close>

theorem validate_typed_input:
  "text_field kv (py ''title'') = Some t \<Longrightarrow> text_field kv (py ''description'') = Some d \<Longrightarrow>
   \<exists>errors. validate_ticket_data (JObj kv) = Inr errors \<and>
     (title_required \<in> set errors \<or> title_length \<in> set errors \<longleftrightarrow>
        length (strip t) < 3 \<or> 120 < length (strip t)) \<and>
     (description_required \<in> set errors \<or> description_length \<in> set errors \<longleftrightarrow>
        length (strip d) < 1 \<or> 1000 < length (strip d)) \<and>
     (priority_invalid \<in> set errors \<longleftrightarrow>
        map_of kv (py ''priority'') \<notin> (\<lambda>p. Some (JStr p)) ` set valid_priorities)"
  by (auto simp add: validate_ticket_data_def text_field_def title_errors_def
      description_errors_def priority_errors_def messages_distinct messages_distinct [symmetric]
      valid_priorities_def py_def
      split: option.splits json.splits if_splits)

lemma validate_short:
  "validate_ticket_data (JObj short_title_fields) = Inr [title_length, priority_invalid]"
  by (simp add: validate_ticket_data_def short_title_fields_def title_errors_def
      description_errors_def priority_errors_def valid_priorities_def py_def strip_def isspace_def)

lemma validate_long:
  "validate_ticket_data (JObj long_title_fields) = Inr [title_length, description_required]"
  by (simp add: validate_ticket_data_def long_title_fields_def title_errors_def strip_letters
      strip_Nil description_errors_def priority_errors_def valid_priorities_def py_def)

lemma validate_widest: "validate_ticket_data (JObj widest_fields) = Inr []"
  by (simp add: validate_ticket_data_def widest_fields_def title_errors_def strip_letters
      description_errors_def priority_errors_def valid_priorities_def py_def)

theorem validate_typed_input_witness:
  "text_field short_title_fields (py ''title'') = Some (py '' ab '') \<and>
   text_field short_title_fields (py ''description'') = Some (py ''d'') \<and>
   (\<exists>errors. validate_ticket_data (JObj short_title_fields) = Inr errors \<and>
      title_length \<in> set errors \<and> description_required \<notin> set errors \<and>
      description_length \<notin> set errors \<and> priority_invalid \<in> set errors) \<and>
   text_field long_title_fields (py ''title'') = Some (replicate 121 97) \<and>
   text_field long_title_fields (py ''description'') = Some [] \<and>
   (\<exists>errors. validate_ticket_data (JObj long_title_fields) = Inr errors \<and>
      title_length \<in> set errors \<and> description_required \<in> set errors \<and>
      priority_invalid \<notin> set errors) \<and>
   text_field widest_fields (py ''title'') = Some (replicate 120 97) \<and>
   text_field widest_fields (py ''description'') = Some (replicate 1000 97) \<and>
   (\<exists>errors. validate_ticket_data (JObj widest_fields) = Inr errors \<and> errors = [])"
proof -
  have a: "text_field short_title_fields (py ''title'') = Some (py '' ab '')"
    "text_field short_title_fields (py ''description'') = Some (py ''d'')"
    by (simp_all add: text_field_def short_title_fields_def py_def)
  have b: "text_field long_title_fields (py ''title'') = Some (replicate 121 97)"
    "text_field long_title_fields (py ''description'') = Some []"
    by (simp_all add: text_field_def long_title_fields_def py_def)
  have c: "text_field widest_fields (py ''title'') = Some (replicate 120 97)"
    "text_field widest_fields (py ''description'') = Some (replicate 1000 97)"
    by (simp_all add: text_field_def widest_fields_def py_def)
  show ?thesis
    using validate_typed_input [OF a] validate_typed_input [OF b] validate_typed_input [OF c]
    by (simp add: a b c validate_short validate_long validate_widest messages_distinct
        messages_distinct [symmetric])
qed

text \<open>
  C3 as the spec states it fails: with a number for a title, \<open>.strip()\<close> raises and no
  message is produced, the one for the priority \<open>urgent\<close> included.
\<close>

theorem validate_raises_on_number:
  "map_of [(py ''title'', JInt 5), (py ''priority'', JStr (py ''urgent''))] (py ''priority'')
     \<notin> (\<lambda>p. Some (JStr p)) ` set valid_priorities \<and>
   validate_ticket_data (JObj [(py ''title'', JInt 5), (py ''priority'', JStr (py ''urgent''))])
     = Inl AttributeError"
  by (simp add: validate_ticket_data_def valid_priorities_def py_def)

section \<open>Creating a ticket\<close>

lemma py_strip_Inr: "py_strip v = Inr x \<Longrightarrow> \<exists>t. v = JStr t"
  by (cases v) simp_all

lemma validated_fields:
  "validate_ticket_data data = Inr [] \<Longrightarrow>
   \<exists>t d p. py_getitem data (py ''title'') = Inr (JStr t) \<and>
           py_getitem data (py ''description'') = Inr (JStr d) \<and>
           py_getitem data (py ''priority'') = Inr (JStr p)"
  by (cases data)
     (auto simp add: validate_ticket_data_def title_errors_def description_errors_def
       priority_errors_def strip_Nil valid_priorities_def py_def
       dest: py_strip_Inr
       split: sum.splits json.splits option.splits if_splits)

lemma validate_ticket1_body: "validate_ticket_data ticket1_body = Inr []"
  by (simp add: validate_ticket_data_def ticket1_body_def title_errors_def
      description_errors_def priority_errors_def valid_priorities_def py_def strip_def isspace_def)

lemma abort_not_created: "abort_response a \<noteq> (b, 201)"
  by (cases a) (simp_all add: bad_request_def)

lemma create_ticket1:
  "create_ticket new_session [] (Returned ticket1_body) 1 1 True =
     ((TicketJson ticket1, 201), [ticket1])"
  by (simp add: create_ticket_def is_reporter_new validate_ticket1_body Let_def)
     (simp add: ticket1_body_def ticket1_def next_id_def current_user_def new_session_def py_def
       Let_def)

lemma title_errors_Nil: "title_errors t = [] \<longleftrightarrow> 3 \<le> length t \<and> length t \<le> 120"
  by (cases t) (auto simp add: title_errors_def)

lemma description_errors_Nil:
  "description_errors d = [] \<longleftrightarrow> 1 \<le> length d \<and> length d \<le> 1000"
  by (cases d) (auto simp add: description_errors_def)

lemma length_strip: "length (strip s) \<le> length s"
proof -
  have "length (strip s) \<le> length (dropWhile isspace s)"
    unfolding strip_def length_rev
    using length_dropWhile_le [of isspace "rev (dropWhile isspace s)"]
    by simp
  also have "\<dots> \<le> length s"
    by (rule length_dropWhile_le)
  finally show ?thesis .
qed

text \<open>
  What validation does guarantee of an accepted ticket: the bounds hold of the stored title
  and description once trimmed, and so the lower bounds hold of them as stored.
\<close>

lemma created_trimmed_bounds:
  "create_ticket s tickets got now_c now_u commit_ok = ((TicketJson t, 201), tickets') \<Longrightarrow>
   3 \<le> length (strip (title t)) \<and> length (strip (title t)) \<le> 120 \<and>
   1 \<le> length (strip (description t)) \<and> length (strip (description t)) \<le> 1000"
proof (cases got)
  case (Returned data)
  then show "create_ticket s tickets got now_c now_u commit_ok = ((TicketJson t, 201), tickets') \<Longrightarrow>
      ?thesis"
    by (cases data)
       (auto simp add: create_ticket_def internal_error_def Let_def validate_ticket_data_def
         title_errors_Nil description_errors_Nil
         split: if_splits sum.splits json.splits option.splits)
next
  case (Raised a)
  then show "create_ticket s tickets got now_c now_u commit_ok = ((TicketJson t, 201), tickets') \<Longrightarrow>
      ?thesis"
    by (simp add: create_ticket_def abort_not_created split: if_splits)
qed

lemma created_lower_bounds:
  "create_ticket s tickets got now_c now_u commit_ok = ((TicketJson t, 201), tickets') \<Longrightarrow>
   3 \<le> length (title t) \<and> 1 \<le> length (description t)"
  using created_trimmed_bounds [of s tickets got now_c now_u commit_ok t tickets']
    length_strip [of "title t"] length_strip [of "description t"]
  by simp

lemma validate_padded: "validate_ticket_data padded_ticket = Inr []"
  by (simp add: validate_ticket_data_def padded_ticket_def strip_trailing_spaces strip_abc
      title_errors_def description_errors_def priority_errors_def valid_priorities_def)
     (simp add: py_def)

lemma padded_row_lengths:
  "length (strip (title padded_row)) = 3" "length (title padded_row) = 121"
  "length (strip (description padded_row)) = 1" "length (description padded_row) = 1001"
  by (simp_all add: padded_row_def strip_trailing_spaces strip_abc) (simp_all add: py_def)

lemma create_padded:
  "create_ticket new_session [] (Returned padded_ticket) 7 8 True =
     ((TicketJson padded_row, 201), [padded_row])"
  by (simp add: create_ticket_def is_reporter_new validate_padded Let_def)
     (simp add: padded_ticket_def padded_row_def next_id_def current_user_def new_session_def
       py_def Let_def)

text \<open>
  C1 does not hold of the code: validation measures the trimmed title and description, and
  \<open>create_ticket\<close> stores them as sent. The body with title \<open>abc\<close> and 118 blanks and
  description \<open>d\<close> and 1000 blanks is accepted with 201, and the stored row has a title of
  121 characters and a description of 1001.
\<close>

theorem padded_ticket_stored:
  "create_ticket new_session [] (Returned padded_ticket) 7 8 True =
     ((TicketJson padded_row, 201), [padded_row]) \<and>
   length (strip (title padded_row)) = 3 \<and> length (title padded_row) = 121 \<and>
   length (strip (description padded_row)) = 1 \<and> length (description padded_row) = 1001"
  by (simp add: create_padded padded_row_lengths)

text \<open>
  C4. When create answers 201, one row was appended to the table and returned: its
  reporter is the name of the acting identity, it has no assigned admin, its status is
  \<open>open\<close>, and \<open>created_at\<close> and \<open>updated_at\<close> hold the clock readings of the insert.
\<close>

theorem created_ticket_fields:
  "create_ticket s tickets data now_c now_u commit_ok = ((b, 201), tickets') \<Longrightarrow>
   \<exists>t. b = TicketJson t \<and> tickets' = tickets @ [t] \<and>
       reporter_name t = name (current_user s) \<and> assigned_admin t = None \<and>
       status t = py ''open'' \<and> created_at t = Some now_c \<and> updated_at t = Some now_u"
  by (auto simp add: create_ticket_def internal_error_def Let_def abort_not_created
      split: if_splits sum.splits json.splits got_json.splits)

theorem created_ticket_fields_witness:
  "create_ticket new_session [] (Returned ticket1_body) 1 1 True =
     ((TicketJson ticket1, 201), [ticket1]) \<and>
   reporter_name ticket1 = name (current_user new_session) \<and> assigned_admin ticket1 = None \<and>
   status ticket1 = py ''open'' \<and> created_at ticket1 = Some 1 \<and> updated_at ticket1 = Some 1"
  using created_ticket_fields [OF create_ticket1] create_ticket1
  by simp

text \<open>
  C7. A session that is not an admin gets 403 from self-assign and from update-status, and
  a session that is not a reporter gets 403 from create, whatever the ticket id, the body,
  the clock and the database would do: the role is checked first and the table is returned
  as it was.
\<close>

theorem role_check_first:
  "(\<not> is_admin s \<longrightarrow>
      assign_self s tickets tid now commit_ok =
        ((Errors [py ''Only admins can assign tickets''], 403), tickets) \<and>
      update_status s tickets tid data now commit_ok =
        ((Errors [py ''Only admins can update ticket status''], 403), tickets)) \<and>
   (\<not> is_reporter s' \<longrightarrow>
      create_ticket s' tickets data' now_c now_u commit_ok =
        ((Errors [py ''Only reporters can create tickets''], 403), tickets))"
  by (simp add: assign_self_def update_status_def create_ticket_def)

theorem role_check_first_witness:
  "\<not> is_admin new_session \<and>
   assign_self new_session [ticket1] 1 3 True =
     ((Errors [py ''Only admins can assign tickets''], 403), [ticket1]) \<and>
   update_status new_session [ticket1] 1
       (Returned (JObj [(py ''status'', JStr (py ''closed''))])) 3 True =
     ((Errors [py ''Only admins can update ticket status''], 403), [ticket1]) \<and>
   \<not> is_reporter admin1 \<and>
   create_ticket admin1 [ticket1] (Returned ticket1_body) 3 3 True =
     ((Errors [py ''Only reporters can create tickets''], 403), [ticket1])"
  using role_check_first [of new_session "[ticket1]" 1 3 True
      "Returned (JObj [(py ''status'', JStr (py ''closed''))])" admin1 "Returned ticket1_body" 3 3]
  by (simp add: not_admin_new admin1_role)




section \<open>Reading and writing rows\<close>

lemma query_get_Some: "query_get tickets tid = Some t \<Longrightarrow> t \<in> set tickets \<and> ticket_id t = tid"
  by (auto simp add: query_get_def find_Some_iff)

lemma query_get_append:
  "query_get (tickets @ [new]) tid =
     (case query_get tickets tid of
        None \<Rightarrow> if ticket_id new = tid then Some new else None
      | Some t \<Rightarrow> Some t)"
  by (induction tickets) (simp_all add: query_get_def)

lemma query_get_update_row:
  "ticket_id t' = i \<Longrightarrow>
   query_get (update_row tickets i t') j =
     (if j = i then map_option (\<lambda>_. t') (query_get tickets i) else query_get tickets j)"
  by (induction tickets) (auto simp add: query_get_def update_row_def)

lemma query_get_delete_row:
  "query_get (delete_row tickets i) j = (if j = i then None else query_get tickets j)"
  by (induction tickets) (auto simp add: query_get_def delete_row_def)

lemma lookup_after_update_row:
  "query_get tickets i = Some u \<Longrightarrow> ticket_id u' = ticket_id u \<Longrightarrow>
   query_get tickets tid = Some t \<Longrightarrow> query_get (update_row tickets i u') tid = Some t' \<Longrightarrow>
   tid = i \<and> t = u \<and> t' = u' \<or> tid \<noteq> i \<and> t' = t"
proof -
  assume u: "query_get tickets i = Some u" and same: "ticket_id u' = ticket_id u"
    and q: "query_get tickets tid = Some t"
    and q': "query_get (update_row tickets i u') tid = Some t'"
  from u same have "ticket_id u' = i"
    by (simp add: query_get_Some)
  then have "query_get (update_row tickets i u') tid =
      (if tid = i then map_option (\<lambda>_. u') (query_get tickets i) else query_get tickets tid)"
    by (rule query_get_update_row)
  with u q q' show ?thesis
    by (auto split: if_splits)
qed

lemma set_ticket_query: "set (ticket_query tickets sf af) \<subseteq> set tickets"
  by (auto simp add: ticket_query_def Let_def)

lemma ticket_id_delete_row: "t \<in> set (delete_row tickets tid) \<Longrightarrow> ticket_id t \<noteq> tid"
  by (simp add: delete_row_def)

lemma list_all_update_row:
  "list_all P tickets \<Longrightarrow> P t' \<Longrightarrow> list_all P (update_row tickets i t')"
  by (auto simp add: update_row_def list_all_iff)

lemma list_all_delete_row: "list_all P tickets \<Longrightarrow> list_all P (delete_row tickets i)"
  by (simp add: delete_row_def list_all_iff)

lemma query_get_ticket1: "query_get [ticket1] 1 = Some ticket1"
  by (simp add: query_get_def ticket1_def)

lemma query_get_taken1: "query_get [taken1] 1 = Some taken1"
  by (simp add: query_get_def taken1_def ticket1_def)

lemma update_row_ticket1: "update_row [ticket1] 1 t = [t]"
  by (simp add: update_row_def ticket1_def)

section \<open>What every reachable state satisfies\<close>

lemma assigned_iff: "admin_or_null t \<Longrightarrow> assigned t \<longleftrightarrow> assigned_admin t \<noteq> None"
  using admins_named by (auto simp add: admin_or_null_def assigned_def split: option.splits)

lemma create_keeps_admins:
  "list_all admin_or_null tickets \<Longrightarrow>
   list_all admin_or_null (snd (create_ticket s tickets data now_c now_u commit_ok))"
  by (auto simp add: create_ticket_def internal_error_def Let_def admin_or_null_def
      split: sum.splits json.splits got_json.splits)

lemma assign_keeps_admins:
  "list_all admin_or_null tickets \<Longrightarrow> (is_admin s \<longrightarrow> name (current_user s) \<in> set ADMINS) \<Longrightarrow>
   list_all admin_or_null (snd (assign_self s tickets tid now commit_ok))"
  by (auto simp add: assign_self_def get_or_404_def Let_def admin_or_null_def
      intro!: list_all_update_row split: option.splits)

lemma update_row_same_admin:
  "query_get tickets tid = Some t \<Longrightarrow> list_all admin_or_null tickets \<Longrightarrow>
   assigned_admin t' = assigned_admin t \<Longrightarrow> list_all admin_or_null (update_row tickets tid t')"
  by (rule list_all_update_row) (auto simp add: list_all_iff admin_or_null_def dest!: query_get_Some)

lemma update_keeps_admins:
  "list_all admin_or_null tickets \<Longrightarrow>
   list_all admin_or_null (snd (update_status s tickets tid data now commit_ok))"
  by (auto simp add: update_status_def get_or_404_def internal_error_def Let_def
      intro: update_row_same_admin
      split: option.splits sum.splits json.splits bool.splits got_json.splits)

lemma delete_keeps_admins:
  "list_all admin_or_null tickets \<Longrightarrow>
   list_all admin_or_null (snd (delete_ticket tickets tid commit_ok))"
  by (auto simp add: delete_ticket_def get_or_404_def list_all_delete_row split: option.splits)

lemma step_consistent: "consistent st \<Longrightarrow> consistent (snd (step st req))"
proof (cases req)
  case (SetRole form_name form_role)
  then show "consistent st \<Longrightarrow> ?thesis"
    using set_role_admin_named [of "sess st" form_name form_role]
    by (auto simp add: consistent_def)
next
  case (GetTickets sf af)
  then show "consistent st \<Longrightarrow> ?thesis" by simp
next
  case (CreateTicket data now_c now_u commit_ok)
  then show "consistent st \<Longrightarrow> ?thesis"
    using create_keeps_admins [of "db st" "sess st" data now_c now_u commit_ok]
    by (auto simp add: consistent_def split: prod.splits)
next
  case (AssignSelf tid now commit_ok)
  then show "consistent st \<Longrightarrow> ?thesis"
    using assign_keeps_admins [of "db st" "sess st" tid now commit_ok]
    by (auto simp add: consistent_def split: prod.splits)
next
  case (UpdateStatus tid data now commit_ok)
  then show "consistent st \<Longrightarrow> ?thesis"
    using update_keeps_admins [of "db st" "sess st" tid data now commit_ok]
    by (auto simp add: consistent_def split: prod.splits)
next
  case (DeleteTicket tid commit_ok)
  then show "consistent st \<Longrightarrow> ?thesis"
    using delete_keeps_admins [of "db st" tid commit_ok]
    by (auto simp add: consistent_def split: prod.splits)
qed

lemma reachable_consistent: "reachable st \<Longrightarrow> consistent st"
proof (induction rule: reachable.induct)
  case (start tickets)
  then show ?case
    by (simp add: consistent_def seeded_def not_admin_new)
next
  case (after st req)
  then show ?case by (simp add: step_consistent)
qed

lemma reachable_desk: "reachable desk"
proof -
  have "seeded [ticket1]"
    by (simp add: seeded_def admin_or_null_def ticket1_def)
  then have "reachable \<lparr>sess = new_session, db = [ticket1]\<rparr>"
    by (rule reachable.start)
  then have "reachable (snd (step \<lparr>sess = new_session, db = [ticket1]\<rparr>
      (SetRole (Some (py ''Admin1'')) (Some (py ''Admin'')))))"
    by (rule reachable.after)
  then show ?thesis
    by (simp add: desk_def admin1_def)
qed

lemma assign_at_desk:
  "assign_self admin1 [ticket1] 1 5 True = ((TicketJson taken1, 200), [taken1])"
  by (simp add: assign_self_def get_or_404_def admin1_role query_get_ticket1 assigned_def
      admin1_name update_row_ticket1 taken1_def Let_def)
     (simp add: ticket1_def)

lemma reachable_desk_taken: "reachable desk_taken"
proof -
  have "reachable (snd (step desk (AssignSelf 1 5 True)))"
    using reachable_desk by (rule reachable.after)
  then show ?thesis
    by (simp add: desk_def desk_taken_def assign_at_desk)
qed

section \<open>Self-assignment\<close>

text \<open>
  C5. In a reachable state, for an admin and a ticket that exists: when the ticket has an
  assigned admin, self-assign answers 400 and the table is returned as it was; when it has
  none, self-assign (the commit succeeding) answers 200, and the row now carries the acting
  admin's name, one of the admin names, and the new \<open>updated_at\<close>, its other fields being
  those of before.
\<close>

theorem assign_self_once:
  "reachable st \<Longrightarrow> is_admin (sess st) \<Longrightarrow> query_get (db st) tid = Some t \<Longrightarrow>
   (assigned_admin t \<noteq> None \<longrightarrow>
      assign_self (sess st) (db st) tid now commit_ok =
        ((Errors [py ''Ticket is already assigned''], 400), db st)) \<and>
   (assigned_admin t = None \<longrightarrow>
      name (current_user (sess st)) \<in> set ADMINS \<and>
      assign_self (sess st) (db st) tid now True =
        ((TicketJson (t\<lparr>assigned_admin := Some (name (current_user (sess st))),
                        updated_at := Some now\<rparr>), 200),
         update_row (db st) tid (t\<lparr>assigned_admin := Some (name (current_user (sess st))),
                                   updated_at := Some now\<rparr>)) \<and>
      query_get (update_row (db st) tid (t\<lparr>assigned_admin := Some (name (current_user (sess st))),
                                            updated_at := Some now\<rparr>)) tid =
        Some (t\<lparr>assigned_admin := Some (name (current_user (sess st))), updated_at := Some now\<rparr>))"
proof -
  assume r: "reachable st" and a: "is_admin (sess st)" and q: "query_get (db st) tid = Some t"
  from r have c: "consistent st"
    by (rule reachable_consistent)
  from q have m: "t \<in> set (db st)" and i: "ticket_id t = tid"
    by (simp_all add: query_get_Some)
  from c m have "admin_or_null t"
    by (simp add: consistent_def list_all_iff)
  then have g: "assigned t \<longleftrightarrow> assigned_admin t \<noteq> None"
    by (rule assigned_iff)
  from c a have n: "name (current_user (sess st)) \<in> set ADMINS"
    by (simp add: consistent_def)
  show ?thesis
    using a q g n i by (simp add: assign_self_def get_or_404_def Let_def query_get_update_row)
qed

theorem assign_self_once_witness:
  "reachable desk_taken \<and> is_admin (sess desk_taken) \<and> query_get (db desk_taken) 1 = Some taken1 \<and>
   assigned_admin taken1 = Some (py ''Admin1'') \<and>
   assign_self (sess desk_taken) (db desk_taken) 1 8 True =
     ((Errors [py ''Ticket is already assigned''], 400), db desk_taken) \<and>
   reachable desk \<and> is_admin (sess desk) \<and> query_get (db desk) 1 = Some ticket1 \<and>
   assigned_admin ticket1 = None \<and>
   assign_self (sess desk) (db desk) 1 5 True = ((TicketJson taken1, 200), [taken1]) \<and>
   query_get [taken1] 1 = Some taken1"
proof -
  have t: "is_admin (sess desk_taken)" "query_get (db desk_taken) 1 = Some taken1"
    by (simp_all add: desk_taken_def admin1_role query_get_taken1)
  have d: "is_admin (sess desk)" "query_get (db desk) 1 = Some ticket1"
    by (simp_all add: desk_def admin1_role query_get_ticket1)
  have v: "assigned_admin taken1 = Some (py ''Admin1'')" "assigned_admin ticket1 = None"
    by (simp_all add: taken1_def ticket1_def)
  from assign_self_once [OF reachable_desk_taken t, of 8 True] v
  have "assign_self (sess desk_taken) (db desk_taken) 1 8 True =
     ((Errors [py ''Ticket is already assigned''], 400), db desk_taken)"
    by simp
  moreover from assign_self_once [OF reachable_desk d, of 5] v
  have "assign_self (sess desk) (db desk) 1 5 True = ((TicketJson taken1, 200), [taken1])"
    by (simp add: desk_def admin1_name update_row_ticket1 taken1_def)
  ultimately show ?thesis
    using reachable_desk reachable_desk_taken t d v query_get_taken1 by simp
qed

section \<open>Status updates\<close>




section \<open>The assigned admin is written once\<close>

lemma create_lookup:
  "query_get tickets tid = Some t \<Longrightarrow>
   query_get (snd (create_ticket s tickets data now_c now_u commit_ok)) tid = Some t"
  by (auto simp add: create_ticket_def internal_error_def Let_def query_get_append
      split: sum.splits json.splits got_json.splits)

lemma update_lookup:
  "query_get tickets tid = Some t \<Longrightarrow>
   query_get (snd (update_status s tickets i data now commit_ok)) tid = Some t' \<Longrightarrow>
   assigned_admin t' = assigned_admin t"
proof -
  assume q: "query_get tickets tid = Some t"
    and q': "query_get (snd (update_status s tickets i data now commit_ok)) tid = Some t'"
  show ?thesis
  proof (cases "snd (update_status s tickets i data now commit_ok) = tickets")
    case True
    with q q' show ?thesis by simp
  next
    case False
    then obtain u new_status where u: "query_get tickets i = Some u"
      and new: "snd (update_status s tickets i data now commit_ok) =
        update_row tickets i (u\<lparr>status := new_status, updated_at := Some now\<rparr>)"
      by (auto simp add: update_status_def get_or_404_def internal_error_def Let_def
          split: option.splits sum.splits json.splits bool.splits if_splits got_json.splits)
    from q' new
    have "query_get (update_row tickets i (u\<lparr>status := new_status, updated_at := Some now\<rparr>)) tid
        = Some t'"
      by simp
    with u q have "tid = i \<and> t = u \<and> t' = u\<lparr>status := new_status, updated_at := Some now\<rparr> \<or>
        tid \<noteq> i \<and> t' = t"
      by (intro lookup_after_update_row) simp_all
    then show ?thesis by auto
  qed
qed

lemma delete_lookup:
  "query_get tickets tid = Some t \<Longrightarrow>
   query_get (snd (delete_ticket tickets i commit_ok)) tid = Some t' \<Longrightarrow> t' = t"
  by (auto simp add: delete_ticket_def get_or_404_def query_get_delete_row
      split: option.splits if_splits)

lemma assign_lookup:
  "list_all admin_or_null tickets \<Longrightarrow> (is_admin s \<longrightarrow> name (current_user s) \<in> set ADMINS) \<Longrightarrow>
   query_get tickets tid = Some t \<Longrightarrow>
   query_get (snd (assign_self s tickets i now commit_ok)) tid = Some t' \<Longrightarrow>
   assigned_admin t' = assigned_admin t \<or>
   assigned_admin t = None \<and> assigned_admin t' \<in> Some ` set ADMINS"
proof -
  assume inv: "list_all admin_or_null tickets" "is_admin s \<longrightarrow> name (current_user s) \<in> set ADMINS"
    and q: "query_get tickets tid = Some t"
    and q': "query_get (snd (assign_self s tickets i now commit_ok)) tid = Some t'"
  show ?thesis
  proof (cases "snd (assign_self s tickets i now commit_ok) = tickets")
    case True
    with q q' show ?thesis by simp
  next
    case False
    then obtain u where u: "is_admin s" "query_get tickets i = Some u" "\<not> assigned u"
      and new: "snd (assign_self s tickets i now commit_ok) =
        update_row tickets i (u\<lparr>assigned_admin := Some (name (current_user s)),
                                 updated_at := Some now\<rparr>)"
      by (auto simp add: assign_self_def get_or_404_def Let_def split: option.splits if_splits)
    from u(2) have "u \<in> set tickets"
      by (simp add: query_get_Some)
    with inv(1) have "admin_or_null u"
      by (simp add: list_all_iff)
    with u(3) have un: "assigned_admin u = None"
      by (simp add: assigned_iff)
    from q' new
    have "query_get (update_row tickets i (u\<lparr>assigned_admin := Some (name (current_user s)),
        updated_at := Some now\<rparr>)) tid = Some t'"
      by simp
    with u(2) q have "tid = i \<and> t = u \<and> t' = u\<lparr>assigned_admin := Some (name (current_user s)),
        updated_at := Some now\<rparr> \<or> tid \<noteq> i \<and> t' = t"
      by (intro lookup_after_update_row) simp_all
    with un u(1) inv(2) show ?thesis by auto
  qed
qed

text \<open>
  C8. From a reachable state, whatever request is served next: a ticket that is in the
  table before and after keeps its \<open>assigned_admin\<close>, or had none and now has one of the
  admin names. So no request replaces an assigned admin by another name or clears it.
\<close>

theorem assigned_admin_write_once:
  "reachable st \<Longrightarrow> query_get (db st) tid = Some t \<Longrightarrow>
   query_get (db (snd (step st req))) tid = Some t' \<Longrightarrow>
   assigned_admin t' = assigned_admin t \<or>
   assigned_admin t = None \<and> assigned_admin t' \<in> Some ` set ADMINS"
proof -
  assume r: "reachable st" and q: "query_get (db st) tid = Some t"
    and q': "query_get (db (snd (step st req))) tid = Some t'"
  from r have c: "list_all admin_or_null (db st)"
    "is_admin (sess st) \<longrightarrow> name (current_user (sess st)) \<in> set ADMINS"
    using reachable_consistent by (simp_all add: consistent_def)
  show ?thesis
  proof (cases req)
    case (SetRole form_name form_role)
    with q q' show ?thesis by simp
  next
    case (GetTickets sf af)
    with q q' show ?thesis by simp
  next
    case (CreateTicket data now_c now_u commit_ok)
    with q q' create_lookup [OF q, of "sess st" data now_c now_u commit_ok]
    show ?thesis by (simp split: prod.splits)
  next
    case (AssignSelf i now commit_ok)
    with q' have "query_get (snd (assign_self (sess st) (db st) i now commit_ok)) tid = Some t'"
      by (simp split: prod.splits)
    with c q show ?thesis by (rule assign_lookup)
  next
    case (UpdateStatus i data now commit_ok)
    with q'
    have "query_get (snd (update_status (sess st) (db st) i data now commit_ok)) tid = Some t'"
      by (simp split: prod.splits)
    with q have "assigned_admin t' = assigned_admin t" by (rule update_lookup)
    then show ?thesis by simp
  next
    case (DeleteTicket i commit_ok)
    with q' have "query_get (snd (delete_ticket (db st) i commit_ok)) tid = Some t'"
      by (simp split: prod.splits)
    with q have "t' = t" by (rule delete_lookup)
    then show ?thesis by simp
  qed
qed

theorem assigned_admin_write_once_witness:
  "reachable desk \<and> query_get (db desk) 1 = Some ticket1 \<and>
   query_get (db (snd (step desk (AssignSelf 1 5 True)))) 1 = Some taken1 \<and>
   assigned_admin ticket1 = None \<and> assigned_admin taken1 \<in> Some ` set ADMINS"
proof -
  have a: "query_get (db desk) 1 = Some ticket1"
    by (simp add: desk_def query_get_ticket1)
  have b: "query_get (db (snd (step desk (AssignSelf 1 5 True)))) 1 = Some taken1"
    by (simp add: desk_def assign_at_desk query_get_taken1)
  have "assigned_admin taken1 \<noteq> assigned_admin ticket1"
    by (simp add: taken1_def ticket1_def)
  with assigned_admin_write_once [OF reachable_desk a b] reachable_desk a b show ?thesis
    by simp
qed

section \<open>Deleting a ticket\<close>

text \<open>
  C9, as the code has it. Delete reads no role: in any state, so under any session,
  deleting an id that is not in the table and fits a 64-bit SQLite integer answers 404 with
  the message \<open>Resource not found\<close> and changes nothing; deleting an id that is in the table
  (the commit succeeding) answers 200, and afterwards the id is not found, every other id
  is found as before, and no listing, under any filters, holds a ticket with the deleted
  id.
\<close>

theorem delete_any_role:
  "(query_get (db st) tid = None \<and> sqlite_integer tid \<longrightarrow>
      step st (DeleteTicket tid commit_ok) = (Api (Message (py ''Resource not found''), 404), st)) \<and>
   (query_get (db st) tid \<noteq> None \<longrightarrow>
      step st (DeleteTicket tid True) =
        (Api (Message (py ''Ticket deleted successfully''), 200),
         st\<lparr>db := delete_row (db st) tid\<rparr>) \<and>
      query_get (delete_row (db st) tid) tid = None \<and>
      (j \<noteq> tid \<longrightarrow> query_get (delete_row (db st) tid) j = query_get (db st) j) \<and>
      get_tickets (delete_row (db st) tid) status_filter admin_filter =
        (TicketsJson (ticket_query (delete_row (db st) tid) status_filter admin_filter), 200) \<and>
      (\<forall>t \<in> set (ticket_query (delete_row (db st) tid) status_filter admin_filter).
         ticket_id t \<noteq> tid))"
  using set_ticket_query [of "delete_row (db st) tid" status_filter admin_filter]
  by (auto simp add: delete_ticket_def get_or_404_def not_found_def query_get_delete_row
      get_tickets_def dest: ticket_id_delete_row)

lemma list_after_delete: "ticket_query [ticket2] [] [] = [ticket2]"
  by (simp add: ticket_query_def)

theorem delete_any_role_witness:
  "query_get (db desk) 2 = None \<and> sqlite_integer 2 \<and>
   step desk (DeleteTicket 2 True) = (Api (Message (py ''Resource not found''), 404), desk) \<and>
   query_get (db front_office) 1 = Some ticket1 \<and>
   step front_office (DeleteTicket 1 True) =
     (Api (Message (py ''Ticket deleted successfully''), 200), front_office\<lparr>db := [ticket2]\<rparr>) \<and>
   query_get [ticket2] 1 = None \<and> query_get [ticket2] 2 = Some ticket2 \<and>
   get_tickets [ticket2] [] [] = (TicketsJson [ticket2], 200)"
proof -
  have a: "query_get (db desk) 2 = None" "sqlite_integer 2"
    by (simp_all add: desk_def query_get_def ticket1_def sqlite_integer_def)
  have b: "query_get (db front_office) 1 = Some ticket1"
    "query_get (db front_office) 2 = Some ticket2"
    by (simp_all add: front_office_def query_get_def ticket1_def ticket2_def)
  have c: "delete_row (db front_office) 1 = [ticket2]"
    by (simp add: front_office_def delete_row_def ticket1_def ticket2_def)
  from delete_any_role [of desk 2 True 2 "[]" "[]"] a
  have "step desk (DeleteTicket 2 True) = (Api (Message (py ''Resource not found''), 404), desk)"
    by simp
  moreover from delete_any_role [of front_office 1 True 2 "[]" "[]"] b c
  have "step front_office (DeleteTicket 1 True) =
     (Api (Message (py ''Ticket deleted successfully''), 200), front_office\<lparr>db := [ticket2]\<rparr>) \<and>
     query_get [ticket2] 1 = None \<and> query_get [ticket2] 2 = Some ticket2 \<and>
     get_tickets [ticket2] [] [] = (TicketsJson [ticket2], 200)"
    by (simp add: list_after_delete)
  ultimately show ?thesis
    using a b by simp
qed

text \<open>
  C9 as the spec states it fails: the id 2^63 is in no table, the route accepts it, and
  binding it for the lookup raises \<open>OverflowError\<close> outside the \<open>try\<close>, so the answer is
  500, not 404.
\<close>

theorem delete_huge_id:
  "query_get (db desk) 9223372036854775808 = None \<and>
   step desk (DeleteTicket 9223372036854775808 True) =
     (Api (Errors [py ''Internal server error''], 500), desk)"
  by (simp add: desk_def query_get_def ticket1_def delete_ticket_def get_or_404_def
      sqlite_integer_def internal_error_def)

end
